theory Spec2Isabelle
  imports Main
begin

section \<open>Entities and transfer objects\<close>

text \<open>
  The article-management service (\<^verbatim>\<open>ArticleService.ts\<close>) coordinates a relational
  repository, a document store (Drive), a publishing platform (WordPress) and an event
  dispatcher. Its methods are embedded as functions from a \<open>world\<close> (the article table
  and the ordered record of every call made to a collaborator) to a result and the next
  world. What a collaborator answers is not decided by the service, so the answers are
  the fields of an \<open>env\<close> record that every operation takes as its first argument.

  A field that may be \<^verbatim>\<open>undefined\<close> or \<^verbatim>\<open>null\<close> in the TypeScript is an \<open>option\<close>.
\<close>

text \<open>
  \<^verbatim>\<open>AuthorDTO\<close>: five exposed properties, each decorated \<^verbatim>\<open>@IsNotEmpty()\<close>.
\<close>

record AuthorDTO =
  name :: "string option"
  email :: "string option"
  school :: "string option"
  biography :: "string option"
  country :: "string option"

text \<open>
  \<^verbatim>\<open>Author\<close> (\<^verbatim>\<open>Author.ts\<close>): \<^verbatim>\<open>plainToClass(Author, dto)\<close> copies the five properties
  of the transfer object into an entity, so the entity is the transfer object extended by
  the columns of its own: the primary key inherited from \<^verbatim>\<open>User\<close> (undefined until the
  row exists) and the nullable \<^verbatim>\<open>teacher\<close> and \<^verbatim>\<open>profile\<close>. The \<^verbatim>\<open>level\<close> the
  constructor sets and the inverse \<^verbatim>\<open>articles\<close> relation are read by no operation here
  and are left out.
\<close>

record Author = AuthorDTO +
  author_id :: "string option"
  teacher :: "string option"
  profile :: "string option"

text \<open>
  An element of \<^verbatim>\<open>articleDto.authors\<close> as \<^verbatim>\<open>create\<close> receives it: the five properties,
  and whether the object is an instance of the \<^verbatim>\<open>AuthorDTO\<close> class or a plain object
  with those properties. class-validator finds the constraints of an object through its
  class; \<^verbatim>\<open>plainToClass\<close> reads the properties of either.
\<close>

record AuthorInput = AuthorDTO +
  is_AuthorDTO :: bool

text \<open>
  \<^verbatim>\<open>Editor\<close>: a \<^verbatim>\<open>User\<close> with its identity fields; \<^verbatim>\<open>assign\<close> reads only the identifier.
\<close>

record Editor =
  editor_id :: string
  editor_name :: string
  editor_email :: string

text \<open>
  \<^verbatim>\<open>ArticleDTO\<close> as \<^verbatim>\<open>create\<close> reads it: the title and the submitted authors.
\<close>

record ArticleDTO =
  title :: string
  authors :: "AuthorInput list"

text \<open>
  \<^verbatim>\<open>Article\<close>: the identifiers are assigned one after the other by \<^verbatim>\<open>create\<close>, so each
  is optional. The two many-to-many relations are \<open>None\<close> on an entity loaded without
  \<^verbatim>\<open>relations\<close> (the property is then undefined) and a list otherwise.
\<close>

record Article =
  article_id :: "string option"
  title :: string
  folderId :: "string option"
  docId :: "string option"
  markingGridId :: "string option"
  wordpressId :: "string option"
  authors :: "Author list option"
  editors :: "Editor list option"

text \<open>The uploaded file (\<^verbatim>\<open>Express.Multer.File\<close>) and the publishing platform's post.\<close>

record File =
  originalname :: string
  mimetype :: string
  buffer :: string

record WordpressPost =
  post_id :: string
  post_link :: string

text \<open>The argument of \<^verbatim>\<open>updateCopyright\<close>; only \<^verbatim>\<open>articleId\<close> is read.\<close>

record AnalysisResult =
  articleId :: string

section \<open>Failures, events and the record of calls\<close>

text \<open>
  \<^verbatim>\<open>ValidationError\<close> of class-validator, with the three properties \<^verbatim>\<open>validateFile\<close>
  fills in.
\<close>

datatype ValidationError =
  ValidationError (property: string) (constraints: "(string \<times> string) list")
    (children: "ValidationError list")

text \<open>
  What a method can throw (or, being \<^verbatim>\<open>async\<close>, reject with): \<open>Error m\<close> is
  \<^verbatim>\<open>new Error(m)\<close>; \<open>Thrown errs\<close> is \<^verbatim>\<open>throw errors\<close>, the array of validation
  errors itself; \<open>TypeError\<close> is a property access on \<^verbatim>\<open>undefined\<close>; \<open>Rejected m\<close> is a
  failure reported by a collaborator.
\<close>

datatype exn = Error string | Thrown "ValidationError list" | TypeError | Rejected string

text \<open>The two events of \<^verbatim>\<open>events.article\<close> that the service dispatches, with their payloads.\<close>

datatype event = article_created Article | article_assigned Article Editor

text \<open>
  One entry per call to a collaborator, with the arguments passed, in the order the calls
  are made.
\<close>

datatype effect =
    LogInfo string
  | ConsoleLog string
  | AuthorFindByEmail "string option"
  | DriveCreateFolder string string
  | DriveCreateFile string File string string
  | DriveCopy string string string
  | DriveShareFile string string "string option"
  | RepositorySave Article
  | WordpressPublishArticle "Article option"
  | WordpressGetArticle Article
  | Dispatch event

text \<open>
  The world: the rows of the article table, the calls made so far (oldest first), the
  number of identifiers drawn from the generator, and the rejections of promises that
  nobody awaits.
\<close>

record world =
  rows :: "Article list"
  trace :: "effect list"
  drawn :: nat
  unhandled :: "exn list"

text \<open>
  The collaborators' answers. \<open>validated\<close> is what the wrapper installed by the
  \<^verbatim>\<open>@validated()\<close> decorator throws for the transfer object before the body of
  \<^verbatim>\<open>create\<close> runs (\<open>None\<close>: the body runs); \<open>ALLOWED_FORMATS\<close>, \<open>google_parent\<close> and
  \<open>google_marking_grid\<close> are the constants imported from \<^verbatim>\<open>ArticleDTO\<close> and \<^verbatim>\<open>env\<close>.
  \<open>findByEmail\<close> is the lookup of \<^verbatim>\<open>AuthorService\<close>. A Drive or WordPress call
  answers with a value or fails; \<open>shareFile\<close> and \<open>save_outcome\<close> give how the returned
  promise settles (\<open>None\<close>: fulfilled). \<open>publishArticle\<close> also takes
  the number of earlier calls to it, since the platform creates a new post each time;
  \<open>uuid_v4\<close> takes the number of identifiers drawn before.
\<close>

record env =
  validated :: "ArticleDTO \<Rightarrow> exn option"
  ALLOWED_FORMATS :: "string list"
  google_parent :: string
  google_marking_grid :: string
  findByEmail :: "string option \<Rightarrow> Author option"
  createFolder :: "string \<Rightarrow> string \<Rightarrow> exn + string"
  createFile :: "string \<Rightarrow> File \<Rightarrow> string \<Rightarrow> string \<Rightarrow> exn + string"
  copy :: "string \<Rightarrow> string \<Rightarrow> string \<Rightarrow> exn + string"
  shareFile :: "string \<Rightarrow> string \<Rightarrow> string option \<Rightarrow> exn option"
  uuid_v4 :: "nat \<Rightarrow> string"
  save_outcome :: "Article \<Rightarrow> exn option"
  publishArticle :: "nat \<Rightarrow> Article option \<Rightarrow> exn + WordpressPost"
  getArticle :: "Article \<Rightarrow> exn + WordpressPost"

definition record_call :: "effect \<Rightarrow> world \<Rightarrow> world" where
  "record_call e w = w\<lparr>trace := trace w @ [e]\<rparr>"

section \<open>The article repository\<close>

text \<open>
  Modelled from the spec: \<^verbatim>\<open>ArticleRepository\<close> (a TypeORM repository; its class is not
  among the sources). The spec gives it "standard find-by-id, find-by-criteria (with
  eager relation loading for authors/editors), save (upsert)". \<open>relation\<close> reads a
  relation of a stored row, a row never linked having none.
\<close>

definition relation :: "'a list option \<Rightarrow> 'a list" where
  "relation r = (case r of None \<Rightarrow> [] | Some xs \<Rightarrow> xs)"

text \<open>
  Modelled from the spec: loading a row, with the \<^verbatim>\<open>relations: ['editors', 'authors']\<close>
  option (both lists are filled in) or without it (both properties stay undefined).
\<close>

definition load :: "bool \<Rightarrow> Article \<Rightarrow> Article" where
  "load relations a =
     (if relations
      then a\<lparr>authors := Some (relation (authors a)), editors := Some (relation (editors a))\<rparr>
      else a\<lparr>authors := None, editors := None\<rparr>)"

text \<open>
  Modelled from the spec: \<^verbatim>\<open>articleRepository.findOne(id, options)\<close>, the first row with
  that primary key, or \<open>None\<close> for \<^verbatim>\<open>undefined\<close>.
\<close>

definition repository_findOne :: "bool \<Rightarrow> string \<Rightarrow> world \<Rightarrow> Article option" where
  "repository_findOne relations k w =
     map_option (load relations) (find (\<lambda>r. article_id r = Some k) (rows w))"

text \<open>
  Modelled from the spec: what \<^verbatim>\<open>save\<close> writes over an existing row. A relation that is
  undefined on the entity is left as the row has it; a relation that is a list replaces
  the row's.
\<close>

definition merge :: "Article \<Rightarrow> Article \<Rightarrow> Article" where
  "merge r a =
     a\<lparr>authors := Some (case authors a of None \<Rightarrow> relation (authors r) | Some xs \<Rightarrow> xs),
       editors := Some (case editors a of None \<Rightarrow> relation (editors r) | Some xs \<Rightarrow> xs)\<rparr>"

text \<open>Modelled from the spec: save as upsert on the primary key.\<close>

fun upsert :: "Article \<Rightarrow> Article list \<Rightarrow> Article list" where
  "upsert a [] = [a]"
| "upsert a (r # rs) = (if article_id r = article_id a then merge r a # rs else r # upsert a rs)"

text \<open>
  Modelled from the spec: \<^verbatim>\<open>articleRepository.save(article)\<close>. The call is recorded; when
  the store accepts it the row is written and the entity itself is the result.
\<close>

definition repository_save :: "env \<Rightarrow> Article \<Rightarrow> world \<Rightarrow> (exn + Article) \<times> world" where
  "repository_save E a w =
     (let w1 = record_call (RepositorySave a) w
      in case save_outcome E a of
           Some e \<Rightarrow> (Inl e, w1)
         | None \<Rightarrow> (Inr a, w1\<lparr>rows := upsert a (rows w1)\<rparr>))"

section \<open>ArticleService\<close>

text \<open>
  The methods embedded are \<^verbatim>\<open>findOne\<close>, \<^verbatim>\<open>assign\<close>, \<^verbatim>\<open>create\<close> (with
  \<^verbatim>\<open>validateFile\<close>), \<^verbatim>\<open>publish\<close>, \<^verbatim>\<open>getPublished\<close> and \<^verbatim>\<open>updateCopyright\<close>.
\<close>

subsection \<open>findOne\<close>

text \<open>
  \<^verbatim>\<open>findOne(id)\<close>: logs, then loads the row with both relations.
\<close>

definition findOne :: "string \<Rightarrow> world \<Rightarrow> Article option \<times> world" where
  "findOne k w =
     (let w1 = record_call (LogInfo ''Find one article'') w
      in (repository_findOne True k w1, w1))"

subsection \<open>assign\<close>

text \<open>
  \<^verbatim>\<open>existingEditors\<close> is the object \<^verbatim>\<open>{}\<close> that \<^verbatim>\<open>reduce\<close> fills with
  \<^verbatim>\<open>map[obj.id] = obj\<close>, one assignment per editor of the article. An assignment adds
  (or replaces) an own property, except for the name \<^verbatim>\<open>__proto__\<close>: that one replaces the
  prototype of the object, which was \<^verbatim>\<open>Object.prototype\<close>, by the editor. So the object
  is its own properties and, when an editor has that identifier, the editor it inherits
  from.
\<close>

type_synonym existing = "(string \<rightharpoonup> Editor) \<times> Editor option"

definition assign_property :: "existing \<Rightarrow> Editor \<Rightarrow> existing" where
  "assign_property m obj =
     (if editor_id obj = ''__proto__'' then (fst m, Some obj)
      else ((fst m)(editor_id obj \<mapsto> obj), snd m))"

definition existingEditors_of :: "Editor list \<Rightarrow> existing" where
  "existingEditors_of es = foldl assign_property (Map.empty, None) es"

text \<open>
  The names every object inherits from \<^verbatim>\<open>Object.prototype\<close>; each holds a function
  or, for \<^verbatim>\<open>__proto__\<close>, the prototype itself.
\<close>

definition Object_prototype :: "string list" where
  "Object_prototype =
     [''constructor'', ''hasOwnProperty'', ''isPrototypeOf'', ''propertyIsEnumerable'',
      ''toLocaleString'', ''toString'', ''valueOf'', ''__proto__'', ''__defineGetter__'',
      ''__defineSetter__'', ''__lookupGetter__'', ''__lookupSetter__'']"

text \<open>
  Reading one of the properties \<^verbatim>\<open>id\<close>, \<^verbatim>\<open>name\<close>, \<^verbatim>\<open>email\<close> of an editor gives a
  string, truthy when it is not empty.
\<close>

definition editor_property :: "Editor \<Rightarrow> string \<Rightarrow> bool" where
  "editor_property e k =
     ((k = ''id'' \<and> editor_id e \<noteq> []) \<or> (k = ''name'' \<and> editor_name e \<noteq> []) \<or>
      (k = ''email'' \<and> editor_email e \<noteq> []))"

text \<open>
  Whether \<^verbatim>\<open>existingEditors[k]\<close> is truthy: an own property holds an editor object;
  otherwise the name is looked up in the editor the object inherits from, if any, and
  then in \<^verbatim>\<open>Object.prototype\<close>.
\<close>

definition truthy :: "existing \<Rightarrow> string \<Rightarrow> bool" where
  "truthy m k =
     (fst m k \<noteq> None \<or>
      (case snd m of None \<Rightarrow> False | Some e \<Rightarrow> editor_property e k) \<or>
      k \<in> set Object_prototype)"

text \<open>
  \<^verbatim>\<open>editors.forEach(editor => { if (!existingEditors[editor.id]) article.editors.push(editor) })\<close>:
  the map is not updated by the loop.
\<close>

definition push_new :: "existing \<Rightarrow> Editor list \<Rightarrow> Editor list \<Rightarrow> Editor list" where
  "push_new existingEditors es incoming =
     foldl (\<lambda>acc editor. if \<not> truthy existingEditors (editor_id editor) then acc @ [editor] else acc)
       es incoming"

text \<open>
  The second \<^verbatim>\<open>forEach\<close>, over the editors of the article after the pushes: one
  \<^verbatim>\<open>article.assigned\<close> event for each editor the map does not hold.
\<close>

definition assigned_events :: "existing \<Rightarrow> Article \<Rightarrow> Editor list \<Rightarrow> effect list" where
  "assigned_events existingEditors article es =
     map (\<lambda>editor. Dispatch (article_assigned article editor))
       (filter (\<lambda>editor. \<not> truthy existingEditors (editor_id editor)) es)"

text \<open>
  \<^verbatim>\<open>assign(id, editors, remove)\<close>. A missing article is returned as it is (\<open>Inr None\<close>).
  \<^verbatim>\<open>article.editors.reduce\<close> on an undefined relation would be a \<^verbatim>\<open>TypeError\<close>. The
  \<^verbatim>\<open>remove\<close> flag is not read. The save is awaited, so a failing save ends the method
  before the second loop.
\<close>

definition assign ::
  "env \<Rightarrow> string \<Rightarrow> Editor list \<Rightarrow> bool \<Rightarrow> world \<Rightarrow> (exn + Article option) \<times> world" where
  "assign E k incoming remove w =
     (case findOne k w of
        (None, w1) \<Rightarrow> (Inr None, w1)
      | (Some article, w1) \<Rightarrow>
          (case editors article of
             None \<Rightarrow> (Inl TypeError, w1)
           | Some es \<Rightarrow>
               (let existingEditors = existingEditors_of es;
                    pushed = push_new existingEditors es incoming;
                    article' = article\<lparr>editors := Some pushed\<rparr>
                in case repository_save E article' w1 of
                     (Inl e, w2) \<Rightarrow> (Inl e, w2)
                   | (Inr saved, w2) \<Rightarrow>
                       (Inr (Some article'),
                        w2\<lparr>trace := trace w2 @ assigned_events existingEditors article' pushed\<rparr>))))"

subsection \<open>create\<close>

text \<open>
  \<^verbatim>\<open>@IsNotEmpty()\<close>: the value is neither the empty string nor \<^verbatim>\<open>null\<close> nor
  \<^verbatim>\<open>undefined\<close>. \<^verbatim>\<open>validateSync(a)\<close> on an instance of \<^verbatim>\<open>AuthorDTO\<close> gives one
  error per property that fails its constraint. For a plain object class-validator has
  no constraint to check and the result is the empty array.
\<close>

definition isNotEmpty :: "string option \<Rightarrow> bool" where
  "isNotEmpty v = (v \<noteq> None \<and> v \<noteq> Some [])"

definition check_isNotEmpty :: "string \<Rightarrow> string option \<Rightarrow> ValidationError list" where
  "check_isNotEmpty p v =
     (if isNotEmpty v then []
      else [ValidationError p [(''isNotEmpty'', p @ '' should not be empty'')] []])"

definition validateSync :: "AuthorInput \<Rightarrow> ValidationError list" where
  "validateSync a =
     (if is_AuthorDTO a
      then check_isNotEmpty ''name'' (name a) @ check_isNotEmpty ''email'' (email a) @
           check_isNotEmpty ''school'' (school a) @ check_isNotEmpty ''biography'' (biography a) @
           check_isNotEmpty ''country'' (country a)
      else [])"

text \<open>\<^verbatim>\<open>Array.prototype.join\<close> on strings.\<close>

fun join :: "string \<Rightarrow> string list \<Rightarrow> string" where
  "join sep [] = []"
| "join sep [x] = x"
| "join sep (x # y # ys) = x @ sep @ join sep (y # ys)"

text \<open>
  \<^verbatim>\<open>validateFile(file)\<close>: collects at most one error, for the property \<^verbatim>\<open>file\<close>, and
  throws the array when it is not empty.
\<close>

definition validateFile :: "string list \<Rightarrow> File \<Rightarrow> exn + unit" where
  "validateFile allowed file =
     (let errors =
            (if mimetype file \<notin> set allowed
             then [ValidationError ''file''
                     [(''mimeType'', ''MimeType must be one of ['' @ join '', '' allowed @ '']'')] []]
             else [])
      in if errors \<noteq> [] then Inl (Thrown errors) else Inr ())"

text \<open>
  \<^verbatim>\<open>plainToClass(Author, dto)\<close> and \<^verbatim>\<open>plainToClass(Article, articleDto)\<close>: the properties
  of the transfer object, every other property undefined.
\<close>

definition plainToClass_Author :: "AuthorInput \<Rightarrow> Author" where
  "plainToClass_Author d =
     \<lparr>name = name d, email = email d, school = school d, biography = biography d,
      country = country d, author_id = None, teacher = None, profile = None\<rparr>"

definition plainToClass_Article :: "string \<Rightarrow> Author list \<Rightarrow> Article" where
  "plainToClass_Article t as =
     \<lparr>article_id = None, title = t, folderId = None, docId = None, markingGridId = None,
      wordpressId = None, authors = Some as, editors = None\<rparr>"

text \<open>
  \<^verbatim>\<open>findAuthorOrAuthor\<close>: \<^verbatim>\<open>(await this.authorService.findByEmail(author.email)) || author\<close>.
\<close>

definition findAuthorOrAuthor :: "env \<Rightarrow> Author \<Rightarrow> Author" where
  "findAuthorOrAuthor E author =
     (case findByEmail E (email author) of Some found \<Rightarrow> found | None \<Rightarrow> author)"

text \<open>
  An awaited call followed by the rest of the method: a rejection ends the method there.
\<close>

definition await ::
  "(world \<Rightarrow> (exn + 'a) \<times> world) \<Rightarrow> ('a \<Rightarrow> world \<Rightarrow> (exn + 'b) \<times> world) \<Rightarrow>
   world \<Rightarrow> (exn + 'b) \<times> world" where
  "await call rest w = (case call w of (Inl e, w1) \<Rightarrow> (Inl e, w1) | (Inr x, w1) \<Rightarrow> rest x w1)"

text \<open>The Drive adapter: each call is recorded, then answered by the environment.\<close>

definition drive_createFolder :: "env \<Rightarrow> string \<Rightarrow> string \<Rightarrow> world \<Rightarrow> (exn + string) \<times> world" where
  "drive_createFolder E nm parentId w =
     (createFolder E nm parentId, record_call (DriveCreateFolder nm parentId) w)"

definition drive_createFile ::
  "env \<Rightarrow> string \<Rightarrow> File \<Rightarrow> string \<Rightarrow> string \<Rightarrow> world \<Rightarrow> (exn + string) \<times> world" where
  "drive_createFile E nm file mimeType parentId w =
     (createFile E nm file mimeType parentId, record_call (DriveCreateFile nm file mimeType parentId) w)"

definition drive_copy :: "env \<Rightarrow> string \<Rightarrow> string \<Rightarrow> string \<Rightarrow> world \<Rightarrow> (exn + string) \<times> world" where
  "drive_copy E source dest nm w = (copy E source dest nm, record_call (DriveCopy source dest nm) w)"

text \<open>
  \<^verbatim>\<open>shareFile\<close> is called and its promise dropped: a rejection reaches no handler of
  the method and is only noted in the world.
\<close>

definition drive_shareFile :: "env \<Rightarrow> string \<Rightarrow> string \<Rightarrow> string option \<Rightarrow> world \<Rightarrow> world" where
  "drive_shareFile E i role em w =
     (let w1 = record_call (DriveShareFile i role em) w
      in case shareFile E i role em of
           None \<Rightarrow> w1
         | Some e \<Rightarrow> w1\<lparr>unhandled := unhandled w1 @ [e]\<rparr>)"

text \<open>
  Lines 70 to 73 of \<^verbatim>\<open>create\<close>: the submitted authors become entities, each is
  replaced by the stored author with its email when there is one, and the transfer
  object with the resolved authors becomes the article.
\<close>

definition resolve :: "env \<Rightarrow> ArticleDTO \<Rightarrow> Article" where
  "resolve E articleDto =
     plainToClass_Article (ArticleDTO.title articleDto)
       (map (findAuthorOrAuthor E) (map plainToClass_Author (ArticleDTO.authors articleDto)))"

text \<open>
  The calls of \<^verbatim>\<open>findByEmail\<close> that line 72 makes, one per submitted author, in the
  order of the list.
\<close>

definition record_lookups :: "ArticleDTO \<Rightarrow> world \<Rightarrow> world" where
  "record_lookups articleDto w =
     foldl (\<lambda>v a. record_call (AuthorFindByEmail (email a)) v) w (ArticleDTO.authors articleDto)"

text \<open>
  \<^verbatim>\<open>create(articleDto, file)\<close>. The two guards come first; then the lookups of the
  authors and the logger call, which records its message; then the three awaited
  Drive calls, each setting one identifier of the article; the share calls, one per
  author of the article (the list \<open>resolve\<close> has set), none awaited; the generated
  identifier; the awaited save; the event.
\<close>

definition create :: "env \<Rightarrow> ArticleDTO \<Rightarrow> File \<Rightarrow> world \<Rightarrow> (exn + Article) \<times> world" where
  "create E articleDto file w =
     (case validated E articleDto of
        Some e \<Rightarrow> (Inl e, w)
      | None \<Rightarrow>
          if length (ArticleDTO.authors articleDto) < 1 \<or>
             list_ex (\<lambda>a. length (validateSync a) > 0) (ArticleDTO.authors articleDto)
          then (Inl (Error []), w)
          else
            (case validateFile (ALLOWED_FORMATS E) file of
               Inl e \<Rightarrow> (Inl e, w)
             | Inr u \<Rightarrow>
                 (let article = resolve E articleDto
                  in await (drive_createFolder E (title article) (google_parent E)) (\<lambda>fid.
                     await (drive_createFile E (title article) file
                              ''application/vnd.google-apps.document'' fid) (\<lambda>did.
                     await (drive_copy E (google_marking_grid E) fid
                              (''Marking Grid for '' @ title article)) (\<lambda>gid w3.
                       (let article3 =
                              article\<lparr>folderId := Some fid, docId := Some did,
                                      markingGridId := Some gid\<rparr>;
                            w4 = foldl (\<lambda>v a. drive_shareFile E did ''writer'' (email a) v) w3
                                   (relation (authors article3));
                            article4 = article3\<lparr>article_id := Some (uuid_v4 E (drawn w4))\<rparr>;
                            w5 = w4\<lparr>drawn := Suc (drawn w4)\<rparr>
                        in await (repository_save E article4)
                             (\<lambda>newArticle w6.
                                (Inr newArticle,
                                 record_call (Dispatch (article_created newArticle)) w6))
                             w5))))
                     (record_call (LogInfo ''Create a new article => '')
                        (record_lookups articleDto w)))))"

subsection \<open>publish, getPublished, updateCopyright\<close>

fun is_publishArticle :: "effect \<Rightarrow> bool" where
  "is_publishArticle (WordpressPublishArticle a) = True"
| "is_publishArticle e = False"

text \<open>
  \<^verbatim>\<open>publish(id)\<close>: the row is loaded without relations and passed to the adapter as it
  is, found or not; writing \<^verbatim>\<open>wordpressId\<close> on a missing article is a \<^verbatim>\<open>TypeError\<close>.
  The save is called and not awaited: its outcome has no part in the result.
\<close>

definition publish :: "env \<Rightarrow> string \<Rightarrow> world \<Rightarrow> (exn + Article \<times> WordpressPost) \<times> world" where
  "publish E k w =
     (let article = repository_findOne False k w;
          earlier = length (filter is_publishArticle (trace w));
          w1 = record_call (WordpressPublishArticle article) w
      in case publishArticle E earlier article of
           Inl e \<Rightarrow> (Inl e, w1)
         | Inr wordpress \<Rightarrow>
             (case article of
                None \<Rightarrow> (Inl TypeError, w1)
              | Some a \<Rightarrow>
                  (let a' = a\<lparr>wordpressId := Some (post_id wordpress)\<rparr>;
                       w2 = (case repository_save E a' w1 of
                               (Inl e, v) \<Rightarrow> v\<lparr>unhandled := unhandled v @ [e]\<rparr>
                             | (Inr saved, v) \<Rightarrow> v)
                   in (Inr (a', wordpress), w2))))"

text \<open>
  \<^verbatim>\<open>getPublished(id)\<close>: \<open>Inr None\<close> is the \<^verbatim>\<open>undefined\<close> returned for a missing article.
\<close>

definition getPublished ::
  "env \<Rightarrow> string \<Rightarrow> world \<Rightarrow> (exn + (Article \<times> WordpressPost) option) \<times> world" where
  "getPublished E k w =
     (case repository_findOne False k w of
        None \<Rightarrow> (Inr None, w)
      | Some article \<Rightarrow>
          (let w1 = record_call (WordpressGetArticle article) w
           in case getArticle E article of
                Inl e \<Rightarrow> (Inl e, w1)
              | Inr wordpress \<Rightarrow> (Inr (Some (article, wordpress)), w1)))"

text \<open>
  \<^verbatim>\<open>updateCopyright(result)\<close>: \<^verbatim>\<open>console.log(article.title)\<close> with no test of the
  lookup's result.
\<close>

definition updateCopyright :: "AnalysisResult \<Rightarrow> world \<Rightarrow> (exn + unit) \<times> world" where
  "updateCopyright result w =
     (case repository_findOne False (articleId result) w of
        None \<Rightarrow> (Inl TypeError, w)
      | Some article \<Rightarrow> (Inr (), record_call (ConsoleLog (title article)) w))"

section \<open>Observing a run\<close>

text \<open>The events dispatched, in order, among the calls of a trace.\<close>

fun dispatched :: "effect list \<Rightarrow> event list" where
  "dispatched [] = []"
| "dispatched (Dispatch ev # es) = ev # dispatched es"
| "dispatched (e # es) = dispatched es"

text \<open>The articles passed to \<^verbatim>\<open>save\<close>, in order, among the calls of a trace.\<close>

fun saved_articles :: "effect list \<Rightarrow> Article list" where
  "saved_articles [] = []"
| "saved_articles (RepositorySave a # es) = a # saved_articles es"
| "saved_articles (e # es) = saved_articles es"

section \<open>Sample data\<close>

text \<open>
  Concrete inputs on which the properties below are evaluated: two editors; an article
  with no editor yet, with one, and as loaded without relations; a stored author; a
  submission by a new author and by the stored one, one without authors, one by an
  author without a school, and that one again as a plain object; an accepted and a
  refused file; collaborators that accept every call, a Drive whose folder identifier
  is the string the generator gives next, and a share call that always rejects.
\<close>

definition editorA :: Editor where
  "editorA = \<lparr>editor_id = ''editor-a'', editor_name = ''Ada'', editor_email = ''ada@example.org''\<rparr>"

definition editorB :: Editor where
  "editorB = \<lparr>editor_id = ''editor-b'', editor_name = ''Ben'', editor_email = ''ben@example.org''\<rparr>"

definition draft :: Article where
  "draft = \<lparr>article_id = Some ''article-1'', title = ''On Tides'', folderId = Some ''folder-0'',
            docId = Some ''doc-0'', markingGridId = Some ''grid-0'', wordpressId = None,
            authors = Some [], editors = Some []\<rparr>"

definition reviewed :: Article where
  "reviewed = draft\<lparr>editors := Some [editorB]\<rparr>"

definition world0 :: world where
  "world0 = \<lparr>rows = [draft], trace = [], drawn = 0, unhandled = []\<rparr>"

definition world1 :: world where
  "world1 = \<lparr>rows = [reviewed], trace = [], drawn = 0, unhandled = []\<rparr>"

definition kim :: Author where
  "kim = \<lparr>name = Some ''Kim'', email = Some ''kim@example.org'', school = Some ''Hill School'',
          biography = Some ''Writes on rivers.'', country = Some ''NZ'',
          author_id = Some ''author-7'', teacher = None, profile = None\<rparr>"

definition env0 :: env where
  "env0 = \<lparr>validated = (\<lambda>d. None),
           ALLOWED_FORMATS = [''application/pdf'', ''application/msword''],
           google_parent = ''parent-folder'',
           google_marking_grid = ''grid-template'',
           findByEmail = (\<lambda>e. if e = Some ''kim@example.org'' then Some kim else None),
           createFolder = (\<lambda>nm parentId. Inr ''folder-1''),
           createFile = (\<lambda>nm file mimeType parentId. Inr ''doc-1''),
           copy = (\<lambda>source dest nm. Inr ''grid-1''),
           shareFile = (\<lambda>i role em. None),
           uuid_v4 = (\<lambda>n. ''3f2c9a1e-'' @ replicate n CHR ''0''),
           save_outcome = (\<lambda>a. None),
           publishArticle =
             (\<lambda>n a. Inr \<lparr>post_id = (if n = 0 then ''post-1'' else ''post-2''), post_link = ''/p''\<rparr>),
           getArticle = (\<lambda>a. Inr \<lparr>post_id = ''post-9'', post_link = ''/p9''\<rparr>)\<rparr>"

definition assignedA :: Article where
  "assignedA = draft\<lparr>editors := Some [editorA]\<rparr>"

definition worldA :: world where
  "worldA = \<lparr>rows = [assignedA],
             trace = [LogInfo ''Find one article'', RepositorySave assignedA,
                      Dispatch (article_assigned assignedA editorA)],
             drawn = 0, unhandled = []\<rparr>"

definition kim_dto :: AuthorInput where
  "kim_dto = \<lparr>name = Some ''Kim K.'', email = Some ''kim@example.org'', school = Some ''Bay College'',
              biography = Some ''Student.'', country = Some ''NZ'', is_AuthorDTO = True\<rparr>"

definition lee_dto :: AuthorInput where
  "lee_dto = \<lparr>name = Some ''Lee'', email = Some ''lee@example.org'', school = Some ''Bay College'',
              biography = Some ''Student.'', country = Some ''NZ'', is_AuthorDTO = True\<rparr>"

definition submission :: ArticleDTO where
  "submission = \<lparr>ArticleDTO.title = ''On Tides'', ArticleDTO.authors = [lee_dto, kim_dto]\<rparr>"

definition no_authors :: ArticleDTO where
  "no_authors = \<lparr>ArticleDTO.title = ''On Tides'', ArticleDTO.authors = []\<rparr>"

definition unschooled :: ArticleDTO where
  "unschooled = \<lparr>ArticleDTO.title = ''On Tides'', ArticleDTO.authors = [lee_dto\<lparr>school := Some []\<rparr>]\<rparr>"

definition walk_in :: ArticleDTO where
  "walk_in = \<lparr>ArticleDTO.title = ''On Tides'',
              ArticleDTO.authors = [lee_dto\<lparr>school := Some [], is_AuthorDTO := False\<rparr>]\<rparr>"

definition paper :: File where
  "paper = \<lparr>originalname = ''tides.pdf'', mimetype = ''application/pdf'', buffer = ''%PDF-1.4''\<rparr>"

definition picture :: File where
  "picture = \<lparr>originalname = ''tides.png'', mimetype = ''image/png'', buffer = ''PNG''\<rparr>"


definition unlinked :: Article where
  "unlinked = draft\<lparr>authors := None, editors := None\<rparr>"

definition rejecting :: "string \<Rightarrow> string \<Rightarrow> string option \<Rightarrow> exn option" where
  "rejecting i role em = Some (Rejected ''403'')"

section \<open>Properties of the repository\<close>

lemma dispatched_append: "dispatched (xs @ ys) = dispatched xs @ dispatched ys"
  by (induction xs rule: dispatched.induct) simp_all

lemma saved_append: "saved_articles (xs @ ys) = saved_articles xs @ saved_articles ys"
  by (induction xs rule: saved_articles.induct) simp_all

lemma saved_lookups: "saved_articles (map (\<lambda>a. AuthorFindByEmail (f a)) as) = []"
  by (induction as) simp_all

lemma saved_shares: "saved_articles (map (\<lambda>a. DriveShareFile i role (f a)) as) = []"
  by (induction as) simp_all

lemma find_upsert:
  "article_id a = Some k \<Longrightarrow>
   find (\<lambda>r. article_id r = Some k) (upsert a rs) =
     Some (case find (\<lambda>r. article_id r = Some k) rs of None \<Rightarrow> a | Some r \<Rightarrow> merge r a)"
  by (induction rs) (auto simp: merge_def)

lemma find_id: "find (\<lambda>r. article_id r = Some k) rs = Some r \<Longrightarrow> article_id r = Some k"
  by (induction rs) (auto split: if_splits)

lemma merge_loaded: "merge r (load True a) = load True a"
  by (simp add: merge_def load_def)

lemma load_load: "load True (load True a) = load True a"
  by (simp add: load_def relation_def)

section \<open>Properties of assign\<close>

lemma push_new_filter:
  "push_new m es incoming = es @ filter (\<lambda>editor. \<not> truthy m (editor_id editor)) incoming"
  unfolding push_new_def
  by (induction incoming arbitrary: es) simp_all

lemma existingEditors_fold:
  "fst (foldl assign_property m0 es) k \<noteq> None \<longleftrightarrow>
     fst m0 k \<noteq> None \<or> (k \<noteq> ''__proto__'' \<and> k \<in> editor_id ` set es)"
  by (induction es arbitrary: m0) (auto simp: assign_property_def)

lemma truthy_existing:
  assumes "k \<in> editor_id ` set es"
  shows "truthy (existingEditors_of es) k"
proof (cases "k = ''__proto__''")
  case True
  then show ?thesis by (simp add: truthy_def Object_prototype_def)
next
  case False
  with assms have "fst (existingEditors_of es) k \<noteq> None"
    unfolding existingEditors_of_def
    using existingEditors_fold [of "(Map.empty, None)" es k] by simp
  then show ?thesis by (simp add: truthy_def)
qed

lemma no_new:
  "\<forall>editor \<in> set incoming. editor_id editor \<in> editor_id ` set es \<Longrightarrow>
   filter (\<lambda>editor. \<not> truthy (existingEditors_of es) (editor_id editor)) incoming = []"
  by (simp add: truthy_existing)

lemma no_old:
  "filter (\<lambda>editor. \<not> truthy (existingEditors_of es) (editor_id editor)) es = []"
  by (simp add: truthy_existing)

lemma assigned_events_new:
  "assigned_events (existingEditors_of es) a
     (es @ filter (\<lambda>editor. \<not> truthy (existingEditors_of es) (editor_id editor)) incoming) =
   map (\<lambda>editor. Dispatch (article_assigned a editor))
     (filter (\<lambda>editor. \<not> truthy (existingEditors_of es) (editor_id editor)) incoming)"
  by (simp add: assigned_events_def no_old)

text \<open>
  What \<^verbatim>\<open>assign\<close> does when the article exists: the editors pushed are the incoming
  ones the map does not hold, in the order supplied, and the events are dispatched for
  exactly those, after a save that succeeded.
\<close>

lemma assign_found:
  assumes r: "find (\<lambda>r. article_id r = Some k) (rows w) = Some r"
  shows "assign E k incoming remove w =
     (let es = relation (editors r);
          new = filter (\<lambda>editor. \<not> truthy (existingEditors_of es) (editor_id editor)) incoming;
          article' = (load True r)\<lparr>editors := Some (es @ new)\<rparr>;
          called = trace w @ [LogInfo ''Find one article'', RepositorySave article']
      in case save_outcome E article' of
           Some e \<Rightarrow> (Inl e, w\<lparr>trace := called\<rparr>)
         | None \<Rightarrow>
             (Inr (Some article'),
              w\<lparr>trace := called @ map (\<lambda>editor. Dispatch (article_assigned article' editor)) new,
                rows := upsert article' (rows w)\<rparr>))"
proof -
  have f1: "findOne k w = (Some (load True r), record_call (LogInfo ''Find one article'') w)"
    using r by (simp add: findOne_def repository_findOne_def record_call_def)
  have eds: "editors (load True r) = Some (relation (editors r))"
    by (simp add: load_def)
  show ?thesis
    by (simp add: assign_def f1 eds Let_def assigned_events_new push_new_filter
          repository_save_def record_call_def split: option.split)
qed

lemma assign_missing:
  assumes "find (\<lambda>r. article_id r = Some k) (rows w) = None"
  shows "assign E k incoming remove w =
           (Inr None, w\<lparr>trace := trace w @ [LogInfo ''Find one article'']\<rparr>)"
  using assms by (simp add: assign_def findOne_def repository_findOne_def record_call_def)

lemma fresh_A: "\<not> truthy (existingEditors_of []) (editor_id editorA)"
  by (simp add: truthy_def existingEditors_of_def Object_prototype_def editorA_def)

lemma found0: "find (\<lambda>r. article_id r = Some ''article-1'') (rows world0) = Some draft"
  by (simp add: world0_def draft_def)

lemma ld0: "load True draft = draft"
  by (simp add: load_def draft_def relation_def)

lemma draft_relations: "editors draft = Some []" "authors draft = Some []"
  by (simp_all add: draft_def)

lemma env0_saves: "save_outcome env0 a = None"
  by (simp add: env0_def)

text \<open>
  C1. The claim: when the input list names the same unassigned editor twice, the editor
  ends up once in the article's editors and one \<^verbatim>\<open>article.assigned\<close> event is
  dispatched. The code tests each incoming editor against the map built before the loop
  and never adds to that map, so the second occurrence is pushed as well, and the second
  loop dispatches for both. Evaluated on an article without editors and the input
  \<open>[editorA, editorA]\<close>: the returned and the stored article hold the editor twice, and
  two events are dispatched.
\<close>

theorem assign_duplicate_input_pushed_twice:
  "fst (assign env0 ''article-1'' [editorA, editorA] False world0) =
     Inr (Some (draft\<lparr>editors := Some [editorA, editorA]\<rparr>)) \<and>
   repository_findOne True ''article-1''
       (snd (assign env0 ''article-1'' [editorA, editorA] False world0)) =
     Some (draft\<lparr>editors := Some [editorA, editorA]\<rparr>) \<and>
   dispatched (trace (snd (assign env0 ''article-1'' [editorA, editorA] False world0))) =
     [article_assigned (draft\<lparr>editors := Some [editorA, editorA]\<rparr>) editorA,
      article_assigned (draft\<lparr>editors := Some [editorA, editorA]\<rparr>) editorA]"
proof -
  have stored: "upsert (draft\<lparr>editors := Some [editorA, editorA]\<rparr>) (rows world0) =
                  [draft\<lparr>editors := Some [editorA, editorA]\<rparr>]"
    by (simp add: world0_def merge_def draft_relations)
  have before: "trace world0 = []"
    by (simp add: world0_def)
  have again: "load True (draft\<lparr>editors := Some [editorA, editorA]\<rparr>) =
                 draft\<lparr>editors := Some [editorA, editorA]\<rparr>"
    by (simp add: load_def relation_def draft_relations)
  have key: "article_id (draft\<lparr>editors := Some [editorA, editorA]\<rparr>) = Some ''article-1''"
    by (simp add: draft_def)
  show ?thesis
    by (simp add: assign_found [OF found0] Let_def draft_relations relation_def fresh_A ld0
          env0_saves stored before repository_findOne_def again key)
qed

text \<open>
  C8. When the article exists and every incoming editor's identifier is already among
  the article's editors, \<^verbatim>\<open>assign\<close> dispatches no event (the events of the trace are
  those of before), the article read back from the repository is the one found at the
  start, editor list included, and the result is that article (or the failure of the
  save, which is called all the same).
\<close>

theorem assign_already_assigned:
  assumes found: "repository_findOne True k w = Some article"
    and old: "\<forall>editor \<in> set incoming.
                editor_id editor \<in> editor_id ` set (relation (editors article))"
  shows "dispatched (trace (snd (assign E k incoming remove w))) = dispatched (trace w) \<and>
         repository_findOne True k (snd (assign E k incoming remove w)) = Some article \<and>
         fst (assign E k incoming remove w) =
           (case save_outcome E article of None \<Rightarrow> Inr (Some article) | Some e \<Rightarrow> Inl e)"
proof -
  from found obtain r where r: "find (\<lambda>r. article_id r = Some k) (rows w) = Some r"
    and a: "article = load True r"
    by (auto simp: repository_findOne_def)
  have eds: "editors article = Some (relation (editors r))"
    by (simp add: a load_def)
  have rel: "relation (editors article) = relation (editors r)"
    by (simp add: eds relation_def)
  have idk: "article_id article = Some k"
    using find_id [OF r] by (simp add: a load_def)
  have same: "push_new (existingEditors_of (relation (editors r))) (relation (editors r)) incoming
              = relation (editors r)"
    using old by (simp add: push_new_filter no_new rel)
  have upd: "article\<lparr>editors := Some (relation (editors r))\<rparr> = article"
    using eds by simp
  have f1: "findOne k w = (Some article, record_call (LogInfo ''Find one article'') w)"
    using found by (simp add: findOne_def repository_findOne_def record_call_def)
  have ev: "assigned_events (existingEditors_of (relation (editors r))) article
              (relation (editors r)) = []"
    by (simp add: assigned_events_def no_old)
  have fu: "find (\<lambda>r. article_id r = Some k) (upsert article (rows w)) = Some article"
    using find_upsert [OF idk, of "rows w"] r by (simp add: a merge_loaded)
  have run: "assign E k incoming remove w =
      (case repository_save E article (record_call (LogInfo ''Find one article'') w) of
         (Inl e, w2) \<Rightarrow> (Inl e, w2)
       | (Inr saved, w2) \<Rightarrow> (Inr (Some article), w2))"
    by (simp add: assign_def f1 eds same upd ev split: prod.splits sum.splits)
  have final: "repository_findOne True k (w\<lparr>rows := upsert article (rows w)\<rparr>) = Some article"
    by (simp add: repository_findOne_def fu) (simp add: a load_load)
  have keep: "repository_findOne True k (w\<lparr>trace := t\<rparr>) = Some article" for t
    using found by (simp add: repository_findOne_def)
  show ?thesis
  proof (cases "save_outcome E article")
    case None
    then show ?thesis
      using final
      by (simp add: run repository_save_def record_call_def dispatched_append
            repository_findOne_def)
  next
    case (Some e)
    then show ?thesis
      using keep
      by (simp add: run repository_save_def record_call_def dispatched_append)
  qed
qed

theorem assign_already_assigned_witness:
  "repository_findOne True ''article-1'' world1 = Some reviewed \<and>
   dispatched (trace (snd (assign env0 ''article-1'' [editorB, editorB] False world1))) = [] \<and>
   repository_findOne True ''article-1''
       (snd (assign env0 ''article-1'' [editorB, editorB] False world1)) = Some reviewed \<and>
   fst (assign env0 ''article-1'' [editorB, editorB] False world1) = Inr (Some reviewed)"
proof -
  have found: "repository_findOne True ''article-1'' world1 = Some reviewed"
    by (simp add: repository_findOne_def world1_def reviewed_def draft_def load_def relation_def)
  have old: "\<forall>editor \<in> set [editorB, editorB].
               editor_id editor \<in> editor_id ` set (relation (editors reviewed))"
    by (simp add: reviewed_def relation_def)
  have "dispatched (trace world1) = []" "save_outcome env0 reviewed = None"
    by (simp_all add: world1_def env0_def)
  then show ?thesis
    using found assign_already_assigned [OF found old, of env0 False] by simp
qed

text \<open>
  C10. In every run of \<^verbatim>\<open>assign\<close>, whatever it returns: an event that the run
  dispatches (it stands somewhere in the calls the run adds to the trace) comes after a
  call of \<^verbatim>\<open>save\<close> in that run, the save succeeded, the event carries the saved
  article and one of its editors, and that article is what the repository holds when the
  run ends. A run whose save fails, or that finds no article, dispatches nothing.
\<close>

theorem assign_dispatch_after_save:
  assumes run: "assign E k incoming remove w = (res, w')"
    and at: "trace w' = trace w @ before @ Dispatch ev # after"
  shows "\<exists>article' editor.
           RepositorySave article' \<in> set before \<and> save_outcome E article' = None \<and>
           ev = article_assigned article' editor \<and> editor \<in> set (relation (editors article')) \<and>
           repository_findOne True k w' = Some article'"
proof (cases "find (\<lambda>r. article_id r = Some k) (rows w)")
  case None
  have "trace w' = trace w @ [LogInfo ''Find one article'']"
    using run by (auto simp: assign_missing [OF None])
  with at have "[LogInfo ''Find one article''] = before @ Dispatch ev # after" by simp
  then show ?thesis by (cases before) simp_all
next
  case (Some r)
  define es where "es = relation (editors r)"
  define new where
    "new = filter (\<lambda>editor. \<not> truthy (existingEditors_of es) (editor_id editor)) incoming"
  define article' where "article' = (load True r)\<lparr>editors := Some (es @ new)\<rparr>"
  define called where "called = [LogInfo ''Find one article'', RepositorySave article']"
  have shape: "assign E k incoming remove w =
      (case save_outcome E article' of
         Some e \<Rightarrow> (Inl e, w\<lparr>trace := trace w @ called\<rparr>)
       | None \<Rightarrow>
           (Inr (Some article'),
            w\<lparr>trace := (trace w @ called) @
                         map (\<lambda>editor. Dispatch (article_assigned article' editor)) new,
              rows := upsert article' (rows w)\<rparr>))"
    unfolding assign_found [OF Some] Let_def es_def new_def article'_def called_def ..
  have idk: "article_id article' = Some k"
    using find_id [OF Some] by (simp add: load_def article'_def)
  have mrg: "merge r article' = article'"
    by (simp add: merge_def article'_def load_def)
  have fu: "find (\<lambda>r. article_id r = Some k) (upsert article' (rows w)) = Some article'"
    using find_upsert [OF idk, of "rows w"] Some by (simp add: mrg)
  have ld: "load True article' = article'"
    by (simp add: article'_def load_def relation_def)
  show ?thesis
  proof (cases "save_outcome E article'")
    case (Some e)
    then have "trace w' = trace w @ called"
      using run by (auto simp: shape)
    with at have "called = before @ Dispatch ev # after"
      by simp
    then show ?thesis
      unfolding called_def by (cases before; cases "tl before") simp_all
  next
    case None
    then have w': "w' = w\<lparr>trace := (trace w @ called) @
                                   map (\<lambda>editor. Dispatch (article_assigned article' editor)) new,
                     rows := upsert article' (rows w)\<rparr>"
      using run by (auto simp: shape)
    with at have eq: "called @ map (\<lambda>editor. Dispatch (article_assigned article' editor)) new
                  = before @ Dispatch ev # after"
      by simp
    have "\<exists>rest. before = called @ rest"
    proof (cases before)
      case Nil
      with eq show ?thesis by (simp add: called_def)
    next
      case (Cons b bs)
      note outer = Cons
      show ?thesis
      proof (cases bs)
        case Nil
        with eq outer show ?thesis by (simp add: called_def)
      next
        case (Cons c cs)
        with eq outer show ?thesis by (simp add: called_def)
      qed
    qed
    then obtain rest where before: "before = called @ rest" ..
    with eq have "map (\<lambda>editor. Dispatch (article_assigned article' editor)) new =
                    rest @ Dispatch ev # after"
      by simp
    then have "Dispatch ev \<in> set (map (\<lambda>editor. Dispatch (article_assigned article' editor)) new)"
      by simp
    then obtain editor where ed: "editor \<in> set new" "ev = article_assigned article' editor"
      by auto
    have "editor \<in> set (relation (editors article'))"
      using ed(1) by (simp add: article'_def relation_def)
    moreover have "repository_findOne True k w' = Some article'"
      by (simp add: w' repository_findOne_def fu ld)
    moreover have "RepositorySave article' \<in> set before"
      by (simp add: before called_def)
    ultimately show ?thesis
      using None ed(2) by blast
  qed
qed

lemma assign_A: "assign env0 ''article-1'' [editorA] False world0 = (Inr (Some assignedA), worldA)"
proof -
  have stored: "upsert (draft\<lparr>editors := Some [editorA]\<rparr>) (rows world0) =
                  [draft\<lparr>editors := Some [editorA]\<rparr>]"
    by (simp add: world0_def merge_def draft_relations)
  have w: "world0\<lparr>trace := t, rows := rs\<rparr> = \<lparr>rows = rs, trace = t, drawn = 0, unhandled = []\<rparr>"
    for t rs
    by (simp add: world0_def)
  have before: "trace world0 = []"
    by (simp add: world0_def)
  show ?thesis
    by (simp add: assign_found [OF found0] Let_def draft_relations relation_def fresh_A ld0
          env0_saves stored before w assignedA_def worldA_def)
qed

theorem assign_dispatch_after_save_witness:
  "assign env0 ''article-1'' [editorA] False world0 = (Inr (Some assignedA), worldA) \<and>
   trace worldA = trace world0 @ [LogInfo ''Find one article'', RepositorySave assignedA] @
                    Dispatch (article_assigned assignedA editorA) # [] \<and>
   (\<exists>article' editor.
       RepositorySave article' \<in> set [LogInfo ''Find one article'', RepositorySave assignedA] \<and>
       save_outcome env0 article' = None \<and>
       article_assigned assignedA editorA = article_assigned article' editor \<and>
       editor \<in> set (relation (editors article')) \<and>
       repository_findOne True ''article-1'' worldA = Some article')"
proof -
  have at: "trace worldA = trace world0 @ [LogInfo ''Find one article'', RepositorySave assignedA] @
                    Dispatch (article_assigned assignedA editorA) # []"
    by (simp add: worldA_def world0_def)
  show ?thesis
    using assign_A at assign_dispatch_after_save [OF assign_A at] by blast
qed

section \<open>Properties of create\<close>

lemma share_all:
  "foldl (\<lambda>v a. drive_shareFile E did role (email a) v) w as =
     w\<lparr>trace := trace w @ map (\<lambda>a. DriveShareFile did role (email a)) as,
       unhandled := unhandled w @ List.map_filter (\<lambda>a. shareFile E did role (email a)) as\<rparr>"
proof (induction as arbitrary: w)
  case Nil
  then show ?case by (simp add: map_filter_simps)
next
  case (Cons a as)
  show ?case
    by (simp add: Cons)
       (simp add: drive_shareFile_def record_call_def map_filter_simps split: option.split)
qed

lemma record_lookups_trace:
  "record_lookups dto w =
     w\<lparr>trace := trace w @ map (\<lambda>a. AuthorFindByEmail (email a)) (ArticleDTO.authors dto)\<rparr>"
proof -
  have "foldl (\<lambda>v a. record_call (AuthorFindByEmail (email a)) v) w as =
          w\<lparr>trace := trace w @ map (\<lambda>a. AuthorFindByEmail (email a)) as\<rparr>" for as :: "AuthorInput list"
    by (induction as arbitrary: w) (simp_all add: record_call_def)
  then show ?thesis
    by (simp add: record_lookups_def)
qed

lemma guards_pass:
  assumes "ArticleDTO.authors dto \<noteq> []"
    and "\<forall>a \<in> set (ArticleDTO.authors dto). validateSync a = []"
  shows "\<not> (length (ArticleDTO.authors dto) < 1 \<or>
            list_ex (\<lambda>a. length (validateSync a) > 0) (ArticleDTO.authors dto))"
  using assms by (simp add: list_ex_iff)

lemma validateFile_allowed: "mimetype file \<in> set allowed \<Longrightarrow> validateFile allowed file = Inr ()"
  by (simp add: validateFile_def)

lemma resolve_fields:
  "title (resolve E dto) = ArticleDTO.title dto"
  "authors (resolve E dto) =
     Some (map (findAuthorOrAuthor E) (map plainToClass_Author (ArticleDTO.authors dto)))"
  "article_id (resolve E dto) = None"
  by (simp_all add: resolve_def plainToClass_Article_def)

lemma create_succeeds:
  assumes pass: "validated E dto = None"
    and some: "ArticleDTO.authors dto \<noteq> []"
    and each: "\<forall>a \<in> set (ArticleDTO.authors dto). validateSync a = []"
    and fmt: "mimetype file \<in> set (ALLOWED_FORMATS E)"
    and folder: "createFolder E (ArticleDTO.title dto) (google_parent E) = Inr fid"
    and doc: "createFile E (ArticleDTO.title dto) file ''application/vnd.google-apps.document'' fid
                = Inr did"
    and grid: "copy E (google_marking_grid E) fid (''Marking Grid for '' @ ArticleDTO.title dto)
                 = Inr gid"
    and saved: "save_outcome E
                  ((resolve E dto)\<lparr>folderId := Some fid, docId := Some did, markingGridId := Some gid,
                                  article_id := Some (uuid_v4 E (drawn w))\<rparr>) = None"
  shows "create E dto file w =
     (let built = (resolve E dto)\<lparr>folderId := Some fid, docId := Some did,
                    markingGridId := Some gid, article_id := Some (uuid_v4 E (drawn w))\<rparr>
      in (Inr built,
          w\<lparr>trace := trace w @
                map (\<lambda>a. AuthorFindByEmail (email a)) (ArticleDTO.authors dto) @
                [LogInfo ''Create a new article => '',
                 DriveCreateFolder (ArticleDTO.title dto) (google_parent E),
                 DriveCreateFile (ArticleDTO.title dto) file ''application/vnd.google-apps.document'' fid,
                 DriveCopy (google_marking_grid E) fid (''Marking Grid for '' @ ArticleDTO.title dto)] @
                map (\<lambda>a. DriveShareFile did ''writer'' (email a)) (relation (authors built)) @
                [RepositorySave built, Dispatch (article_created built)],
            unhandled := unhandled w @
                List.map_filter (\<lambda>a. shareFile E did ''writer'' (email a)) (relation (authors built)),
            drawn := Suc (drawn w),
            rows := upsert built (rows w)\<rparr>))"
  using guards_pass [OF some each] grid saved
  by (simp add: create_def pass validateFile_allowed [OF fmt] await_def drive_createFolder_def
        drive_createFile_def drive_copy_def resolve_fields folder doc share_all Let_def
        record_call_def repository_save_def relation_def record_lookups_trace)

lemma guards_fail:
  assumes "ArticleDTO.authors dto = [] \<or> (\<exists>a \<in> set (ArticleDTO.authors dto). validateSync a \<noteq> [])"
  shows "length (ArticleDTO.authors dto) < 1 \<or>
         list_ex (\<lambda>a. length (validateSync a) > 0) (ArticleDTO.authors dto)"
  using assms by (auto simp: list_ex_iff)

text \<open>
  C2, as stated, fails: with an empty authors list, and with an \<^verbatim>\<open>AuthorDTO\<close> whose
  school is the empty string (and a wrapper that lets the call through), \<^verbatim>\<open>create\<close>
  throws \<^verbatim>\<open>new Error()\<close>, which carries no constraint, and not an array of
  validation errors; no call is made, the world is unchanged. And with the same author
  given as a plain object the guard finds no violation: \<^verbatim>\<open>create\<close> does not fail, it
  goes on to the Drive and returns the article with the folder created.
\<close>

theorem create_no_authors_plain_error:
  "create env0 no_authors paper world0 = (Inl (Error []), world0) \<and>
   create env0 unschooled paper world0 = (Inl (Error []), world0) \<and>
   map_sum id folderId (fst (create env0 walk_in paper world0)) = Inr (Some ''folder-1'')"
proof -
  have rejected: "create env0 no_authors paper world0 = (Inl (Error []), world0)"
      "create env0 unschooled paper world0 = (Inl (Error []), world0)"
    by (simp_all add: create_def env0_def no_authors_def unschooled_def validateSync_def
          check_isNotEmpty_def isNotEmpty_def lee_dto_def)
  have ok: "validated env0 walk_in = None" "ArticleDTO.authors walk_in \<noteq> []"
      "\<forall>a \<in> set (ArticleDTO.authors walk_in). validateSync a = []"
      "mimetype paper \<in> set (ALLOWED_FORMATS env0)"
    by (simp_all add: env0_def walk_in_def validateSync_def paper_def)
  have drive: "createFolder env0 (ArticleDTO.title walk_in) (google_parent env0) = Inr ''folder-1''"
      "createFile env0 (ArticleDTO.title walk_in) paper ''application/vnd.google-apps.document''
         ''folder-1'' = Inr ''doc-1''"
      "copy env0 (google_marking_grid env0) ''folder-1''
         (''Marking Grid for '' @ ArticleDTO.title walk_in) = Inr ''grid-1''"
    by (simp_all add: env0_def)
  have "map_sum id folderId (fst (create env0 walk_in paper world0)) = Inr (Some ''folder-1'')"
    by (simp add: create_succeeds [OF ok drive env0_saves] Let_def)
  with rejected show ?thesis by simp
qed

text \<open>
  C2, amended. When the authors list is empty, or \<^verbatim>\<open>validateSync\<close> reports a
  violation for one of the authors (an \<^verbatim>\<open>AuthorDTO\<close> with a required field missing or
  empty), or the file's MIME type is not among the allowed formats, \<^verbatim>\<open>create\<close> fails
  and the world is unchanged, so the trace has no new call: none of \<^verbatim>\<open>createFolder\<close>,
  \<^verbatim>\<open>createFile\<close>, \<^verbatim>\<open>copy\<close> or \<^verbatim>\<open>shareFile\<close> is called. What is thrown is the
  wrapper's error when the wrapper rejects the transfer object; otherwise a bare
  \<^verbatim>\<open>Error\<close> when the authors are at fault; and otherwise the array holding one
  \<^verbatim>\<open>ValidationError\<close>, for the property \<^verbatim>\<open>file\<close>.
\<close>

theorem create_rejects_before_any_call:
  assumes "ArticleDTO.authors dto = [] \<or>
           (\<exists>a \<in> set (ArticleDTO.authors dto). validateSync a \<noteq> []) \<or>
           mimetype file \<notin> set (ALLOWED_FORMATS E)"
  shows "create E dto file w =
     (Inl (case validated E dto of
             Some e \<Rightarrow> e
           | None \<Rightarrow>
               if ArticleDTO.authors dto = [] \<or>
                  (\<exists>a \<in> set (ArticleDTO.authors dto). validateSync a \<noteq> [])
               then Error []
               else Thrown [ValidationError ''file''
                              [(''mimeType'',
                                ''MimeType must be one of ['' @ join '', '' (ALLOWED_FORMATS E) @ '']'')]
                              []]),
      w)"
proof (cases "validated E dto")
  case (Some e)
  then show ?thesis by (simp add: create_def)
next
  case None
  show ?thesis
  proof (cases "ArticleDTO.authors dto = [] \<or>
                (\<exists>a \<in> set (ArticleDTO.authors dto). validateSync a \<noteq> [])")
    case True
    then show ?thesis
      using guards_fail [OF True] by (simp add: create_def None)
  next
    case False
    then have ok: "\<not> (length (ArticleDTO.authors dto) < 1 \<or>
            list_ex (\<lambda>a. length (validateSync a) > 0) (ArticleDTO.authors dto))"
      by (intro guards_pass) auto
    from False assms have "mimetype file \<notin> set (ALLOWED_FORMATS E)" by blast
    then show ?thesis
      using False ok by (simp add: create_def None validateFile_def)
  qed
qed

lemma valid_dtos: "validateSync lee_dto = []" "validateSync kim_dto = []"
  by (simp_all add: validateSync_def check_isNotEmpty_def isNotEmpty_def lee_dto_def kim_dto_def)

theorem create_rejects_before_any_call_witness:
  "mimetype picture \<notin> set (ALLOWED_FORMATS env0) \<and>
   create env0 submission picture world0 =
     (Inl (Thrown [ValidationError ''file''
                     [(''mimeType'',
                       ''MimeType must be one of [application/pdf, application/msword]'')] []]),
      world0)"
proof -
  have bad: "mimetype picture \<notin> set (ALLOWED_FORMATS env0)"
    by (simp add: picture_def env0_def)
  have pass: "validated env0 submission = None"
    by (simp add: env0_def)
  have fine: "\<not> (ArticleDTO.authors submission = [] \<or>
                (\<exists>a \<in> set (ArticleDTO.authors submission). validateSync a \<noteq> []))"
    by (simp add: submission_def valid_dtos)
  have msg: "''MimeType must be one of ['' @ join '', '' (ALLOWED_FORMATS env0) @ '']'' =
             ''MimeType must be one of [application/pdf, application/msword]''"
    by (simp add: env0_def)
  show ?thesis
    using create_rejects_before_any_call [of submission picture env0 world0] bad fine
    by (simp only: pass msg option.case if_False simp_thms)
qed

lemma submission_valid:
  "validated env0 submission = None"
  "ArticleDTO.authors submission \<noteq> []"
  "\<forall>a \<in> set (ArticleDTO.authors submission). validateSync a = []"
  "mimetype paper \<in> set (ALLOWED_FORMATS env0)"
  by (simp_all add: env0_def submission_def valid_dtos paper_def)

lemma env0_drive:
  "createFolder env0 (ArticleDTO.title submission) (google_parent env0) = Inr ''folder-1''"
  "createFile env0 (ArticleDTO.title submission) paper ''application/vnd.google-apps.document''
     ''folder-1'' = Inr ''doc-1''"
  "copy env0 (google_marking_grid env0) ''folder-1''
     (''Marking Grid for '' @ ArticleDTO.title submission) = Inr ''grid-1''"
  by (simp_all add: env0_def)

lemma env0_uuid: "uuid_v4 env0 (drawn world0) = ''3f2c9a1e-''"
  by (simp add: env0_def world0_def)

lemma env0_saves0:
  "save_outcome env0
     ((resolve env0 submission)\<lparr>folderId := Some ''folder-1'', docId := Some ''doc-1'',
        markingGridId := Some ''grid-1'', article_id := Some (uuid_v4 env0 (drawn world0))\<rparr>) = None"
  by (rule env0_saves)




text \<open>
  C4. For a valid input in which the author at position \<open>i\<close> has an email that
  \<^verbatim>\<open>findByEmail\<close> knows, \<^verbatim>\<open>create\<close> makes one save, of the article it returns, and
  the table afterwards is the table of before with that one row written. The article,
  as returned and as read back, has as many authors as were submitted; the one at
  position \<open>i\<close> is the stored author record itself, with the stored identifier; and
  at every position the author is the record \<^verbatim>\<open>findByEmail\<close> returned for the email
  submitted there, or, when \<^verbatim>\<open>findByEmail\<close> does not know that email, the submitted
  author as a new entity. So no copy of an author the store already has is saved.
\<close>

theorem create_reuses_existing_author:
  assumes pass: "validated E dto = None"
    and some: "ArticleDTO.authors dto \<noteq> []"
    and each: "\<forall>a \<in> set (ArticleDTO.authors dto). validateSync a = []"
    and fmt: "mimetype file \<in> set (ALLOWED_FORMATS E)"
    and folder: "createFolder E (ArticleDTO.title dto) (google_parent E) = Inr fid"
    and doc: "createFile E (ArticleDTO.title dto) file ''application/vnd.google-apps.document'' fid
                = Inr did"
    and grid: "copy E (google_marking_grid E) fid (''Marking Grid for '' @ ArticleDTO.title dto)
                 = Inr gid"
    and saved: "save_outcome E
                  ((resolve E dto)\<lparr>folderId := Some fid, docId := Some did, markingGridId := Some gid,
                                  article_id := Some (uuid_v4 E (drawn w))\<rparr>) = None"
    and at: "i < length (ArticleDTO.authors dto)"
    and known: "findByEmail E (email (ArticleDTO.authors dto ! i)) = Some existing"
  shows "\<exists>a w' p. create E dto file w = (Inr a, w') \<and>
           rows w' = upsert a (rows w) \<and>
           saved_articles (trace w') = saved_articles (trace w) @ [a] \<and>
           repository_findOne True (uuid_v4 E (drawn w)) w' = Some p \<and>
           authors p = authors a \<and>
           length (relation (authors p)) = length (ArticleDTO.authors dto) \<and>
           relation (authors p) ! i = existing \<and>
           author_id (relation (authors p) ! i) = author_id existing \<and>
           (\<forall>j < length (ArticleDTO.authors dto).
              relation (authors p) ! j =
                (case findByEmail E (email (ArticleDTO.authors dto ! j)) of
                   Some found \<Rightarrow> found
                 | None \<Rightarrow> plainToClass_Author (ArticleDTO.authors dto ! j)))"
proof -
  define built where
    "built = (resolve E dto)\<lparr>folderId := Some fid, docId := Some did, markingGridId := Some gid,
                             article_id := Some (uuid_v4 E (drawn w))\<rparr>"
  define w' where "w' = snd (create E dto file w)"
  have run: "create E dto file w = (Inr built, w')"
    and rows: "rows w' = upsert built (rows w)"
    and saves: "saved_articles (trace w') = saved_articles (trace w) @ [built]"
    unfolding w'_def built_def
    by (simp_all add: create_succeeds [OF pass some each fmt folder doc grid saved] Let_def
          saved_append saved_lookups saved_shares)
  have key: "article_id built = Some (uuid_v4 E (drawn w))"
    by (simp add: built_def)
  define p where
    "p = load True (case find (\<lambda>r. article_id r = Some (uuid_v4 E (drawn w))) (rows w) of
                      None \<Rightarrow> built | Some r \<Rightarrow> merge r built)"
  have stored: "repository_findOne True (uuid_v4 E (drawn w)) w' = Some p"
    by (simp add: repository_findOne_def rows find_upsert [OF key] p_def)
  have resolved: "authors built =
      Some (map (findAuthorOrAuthor E) (map plainToClass_Author (ArticleDTO.authors dto)))"
    by (simp add: built_def resolve_fields)
  have same: "authors p = authors built"
    by (simp add: p_def load_def merge_def resolved relation_def split: option.split)
  have len: "length (relation (authors p)) = length (ArticleDTO.authors dto)"
    by (simp add: same resolved relation_def)
  have copied: "email (plainToClass_Author d) = email d" "author_id (plainToClass_Author d) = None"
    for d
    by (simp_all add: plainToClass_Author_def)
  have here: "relation (authors p) ! i = existing"
    using at known by (simp add: same resolved relation_def findAuthorOrAuthor_def copied)
  have origin: "relation (authors p) ! j =
                  (case findByEmail E (email (ArticleDTO.authors dto ! j)) of
                     Some found \<Rightarrow> found
                   | None \<Rightarrow> plainToClass_Author (ArticleDTO.authors dto ! j))"
    if "j < length (ArticleDTO.authors dto)" for j
    using that by (simp add: same resolved relation_def findAuthorOrAuthor_def copied)
  from run rows saves stored same len here origin show ?thesis
    by blast
qed

theorem create_reuses_existing_author_witness:
  "findByEmail env0 (email (ArticleDTO.authors submission ! 1)) = Some kim \<and>
   (\<exists>a w' p. create env0 submission paper world0 = (Inr a, w') \<and>
      rows w' = upsert a (rows world0) \<and>
      saved_articles (trace w') = saved_articles (trace world0) @ [a] \<and>
      repository_findOne True ''3f2c9a1e-'' w' = Some p \<and>
      authors p = authors a \<and>
      length (relation (authors p)) = 2 \<and>
      relation (authors p) ! 1 = kim \<and>
      author_id (relation (authors p) ! 1) = Some ''author-7'' \<and>
      (\<forall>j < 2.
         relation (authors p) ! j =
           (case findByEmail env0 (email (ArticleDTO.authors submission ! j)) of
              Some found \<Rightarrow> found
            | None \<Rightarrow> plainToClass_Author (ArticleDTO.authors submission ! j))))"
proof -
  have at: "1 < length (ArticleDTO.authors submission)"
    by (simp add: submission_def)
  have known: "findByEmail env0 (email (ArticleDTO.authors submission ! 1)) = Some kim"
    by (simp add: submission_def kim_dto_def env0_def)
  have len: "length (ArticleDTO.authors submission) = 2"
    by (simp add: submission_def)
  have kid: "author_id kim = Some ''author-7''"
    by (simp add: kim_def)
  show ?thesis
    using create_reuses_existing_author [OF submission_valid env0_drive env0_saves0 at known] known
    by (simp only: env0_uuid len kid simp_thms)
qed

text \<open>
  C5. For a valid input and collaborators that answer, two runs of \<^verbatim>\<open>create\<close> that
  differ only in how the promises of the \<^verbatim>\<open>shareFile\<close> calls settle both succeed and
  return the same article, leave the same rows and make the same calls. (The rejections
  are noted in \<open>unhandled\<close> only.)
\<close>

theorem create_ignores_share_outcome:
  assumes pass: "validated E dto = None"
    and some: "ArticleDTO.authors dto \<noteq> []"
    and each: "\<forall>a \<in> set (ArticleDTO.authors dto). validateSync a = []"
    and fmt: "mimetype file \<in> set (ALLOWED_FORMATS E)"
    and folder: "createFolder E (ArticleDTO.title dto) (google_parent E) = Inr fid"
    and doc: "createFile E (ArticleDTO.title dto) file ''application/vnd.google-apps.document'' fid
                = Inr did"
    and grid: "copy E (google_marking_grid E) fid (''Marking Grid for '' @ ArticleDTO.title dto)
                 = Inr gid"
    and saved: "save_outcome E
                  ((resolve E dto)\<lparr>folderId := Some fid, docId := Some did, markingGridId := Some gid,
                                  article_id := Some (uuid_v4 E (drawn w))\<rparr>) = None"
  shows "\<exists>a. fst (create (E\<lparr>shareFile := s1\<rparr>) dto file w) = Inr a \<and>
              fst (create (E\<lparr>shareFile := s2\<rparr>) dto file w) = Inr a \<and>
              rows (snd (create (E\<lparr>shareFile := s1\<rparr>) dto file w)) =
                rows (snd (create (E\<lparr>shareFile := s2\<rparr>) dto file w)) \<and>
              trace (snd (create (E\<lparr>shareFile := s1\<rparr>) dto file w)) =
                trace (snd (create (E\<lparr>shareFile := s2\<rparr>) dto file w))"
proof -
  have "findAuthorOrAuthor (E\<lparr>shareFile := s\<rparr>) = findAuthorOrAuthor E" for s
    by (rule ext) (simp add: findAuthorOrAuthor_def)
  then have same: "resolve (E\<lparr>shareFile := s\<rparr>) dto = resolve E dto" for s
    by (simp add: resolve_def)
  have run: "create (E\<lparr>shareFile := s\<rparr>) dto file w =
     (let built = (resolve E dto)\<lparr>folderId := Some fid, docId := Some did,
                    markingGridId := Some gid, article_id := Some (uuid_v4 E (drawn w))\<rparr>
      in (Inr built,
          w\<lparr>trace := trace w @
                map (\<lambda>a. AuthorFindByEmail (email a)) (ArticleDTO.authors dto) @
                [LogInfo ''Create a new article => '',
                 DriveCreateFolder (ArticleDTO.title dto) (google_parent E),
                 DriveCreateFile (ArticleDTO.title dto) file ''application/vnd.google-apps.document'' fid,
                 DriveCopy (google_marking_grid E) fid (''Marking Grid for '' @ ArticleDTO.title dto)] @
                map (\<lambda>a. DriveShareFile did ''writer'' (email a)) (relation (authors built)) @
                [RepositorySave built, Dispatch (article_created built)],
            unhandled := unhandled w @
                List.map_filter (\<lambda>a. s did ''writer'' (email a)) (relation (authors built)),
            drawn := Suc (drawn w),
            rows := upsert built (rows w)\<rparr>))" for s
    using create_succeeds [where E = "E\<lparr>shareFile := s\<rparr>" and w = w]
      pass some each fmt folder doc grid saved
    by (simp add: same)
  show ?thesis
    by (simp add: run Let_def)
qed

theorem create_ignores_share_outcome_witness:
  "\<exists>a. fst (create (env0\<lparr>shareFile := (\<lambda>i role em. None)\<rparr>) submission paper world0) = Inr a \<and>
        fst (create (env0\<lparr>shareFile := rejecting\<rparr>) submission paper world0) = Inr a \<and>
        rows (snd (create (env0\<lparr>shareFile := (\<lambda>i role em. None)\<rparr>) submission paper world0)) =
          rows (snd (create (env0\<lparr>shareFile := rejecting\<rparr>) submission paper world0)) \<and>
        trace (snd (create (env0\<lparr>shareFile := (\<lambda>i role em. None)\<rparr>) submission paper world0)) =
          trace (snd (create (env0\<lparr>shareFile := rejecting\<rparr>) submission paper world0))"
  by (rule create_ignores_share_outcome [OF submission_valid env0_drive env0_saves0])

section \<open>Properties of publish, getPublished and updateCopyright\<close>

lemma publish_found:
  assumes r: "find (\<lambda>r. article_id r = Some k) (rows w) = Some r"
    and answer: "publishArticle E (length (filter is_publishArticle (trace w))) (Some (load False r))
                   = Inr p"
    and saved: "save_outcome E ((load False r)\<lparr>wordpressId := Some (post_id p)\<rparr>) = None"
  shows "publish E k w =
     (Inr ((load False r)\<lparr>wordpressId := Some (post_id p)\<rparr>, p),
      w\<lparr>trace := trace w @ [WordpressPublishArticle (Some (load False r)),
                             RepositorySave ((load False r)\<lparr>wordpressId := Some (post_id p)\<rparr>)],
        rows := upsert ((load False r)\<lparr>wordpressId := Some (post_id p)\<rparr>) (rows w)\<rparr>)"
  by (simp add: publish_def repository_findOne_def r answer Let_def repository_save_def
        record_call_def saved)

lemma reload_published:
  "load False (merge r ((load False r)\<lparr>wordpressId := x\<rparr>)) = (load False r)\<lparr>wordpressId := x\<rparr>"
  by (simp add: load_def merge_def)

lemma unlinked_found: "repository_findOne False ''article-1'' world0 = Some unlinked"
  by (simp add: repository_findOne_def found0 load_def unlinked_def)

text \<open>
  C6. For an existing article, a platform that answers both calls and saves that
  succeed: two calls of \<^verbatim>\<open>publish\<close> on the same identifier make two calls of the
  adapter's \<^verbatim>\<open>publishArticle\<close> (the second with the article as the first call left
  it), each returns the article with the post identifier of its own call, and the stored
  \<^verbatim>\<open>wordpressId\<close> is the first call's identifier after the first call and the second
  call's after the second. The save of \<^verbatim>\<open>publish\<close> is not awaited; the model lets it
  take effect when it is called.
\<close>

theorem publish_twice:
  assumes found: "repository_findOne False k w = Some a"
    and first: "publishArticle E (length (filter is_publishArticle (trace w))) (Some a) = Inr p1"
    and second: "publishArticle E (Suc (length (filter is_publishArticle (trace w))))
                   (Some (a\<lparr>wordpressId := Some (post_id p1)\<rparr>)) = Inr p2"
    and saved1: "save_outcome E (a\<lparr>wordpressId := Some (post_id p1)\<rparr>) = None"
    and saved2: "save_outcome E (a\<lparr>wordpressId := Some (post_id p2)\<rparr>) = None"
  shows "fst (publish E k w) = Inr (a\<lparr>wordpressId := Some (post_id p1)\<rparr>, p1) \<and>
         map_option wordpressId (repository_findOne False k (snd (publish E k w))) =
           Some (Some (post_id p1)) \<and>
         fst (publish E k (snd (publish E k w))) = Inr (a\<lparr>wordpressId := Some (post_id p2)\<rparr>, p2) \<and>
         filter is_publishArticle (trace (snd (publish E k (snd (publish E k w))))) =
           filter is_publishArticle (trace w) @
             [WordpressPublishArticle (Some a),
              WordpressPublishArticle (Some (a\<lparr>wordpressId := Some (post_id p1)\<rparr>))] \<and>
         map_option wordpressId (repository_findOne False k (snd (publish E k (snd (publish E k w))))) =
           Some (Some (post_id p2))"
proof -
  from found obtain r where r: "find (\<lambda>r. article_id r = Some k) (rows w) = Some r"
    and a: "a = load False r"
    by (auto simp: repository_findOne_def)
  define a1 where "a1 = (load False r)\<lparr>wordpressId := Some (post_id p1)\<rparr>"
  define w1 where "w1 = w\<lparr>trace := trace w @ [WordpressPublishArticle (Some (load False r)), RepositorySave a1],
                         rows := upsert a1 (rows w)\<rparr>"
  have run1: "publish E k w = (Inr (a1, p1), w1)"
    unfolding a1_def w1_def
    using first saved1 by (intro publish_found [OF r]) (simp_all add: a)
  have key1: "article_id a1 = Some k"
    using find_id [OF r] by (simp add: a1_def load_def)
  have r1: "find (\<lambda>r. article_id r = Some k) (rows w1) = Some (merge r a1)"
    by (simp add: w1_def find_upsert [OF key1] r)
  have reload: "load False (merge r a1) = a1"
    unfolding a1_def by (rule reload_published)
  have count1: "length (filter is_publishArticle (trace w1)) =
                  Suc (length (filter is_publishArticle (trace w)))"
    by (simp add: w1_def)
  define a2 where "a2 = a1\<lparr>wordpressId := Some (post_id p2)\<rparr>"
  have a2: "a2 = a\<lparr>wordpressId := Some (post_id p2)\<rparr>"
    by (simp add: a2_def a1_def a)
  define w2 where "w2 = w1\<lparr>trace := trace w1 @ [WordpressPublishArticle (Some a1), RepositorySave a2],
                          rows := upsert a2 (rows w1)\<rparr>"
  have run2: "publish E k w1 = (Inr (a2, p2), w2)"
    using publish_found [OF r1, of E p2] second saved2
    by (simp add: reload count1 a2 [symmetric] w2_def) (simp add: a1_def a a2_def)
  have key2: "article_id a2 = Some k"
    using key1 by (simp add: a2_def)
  have reload2: "load False (merge (merge r a1) a2) = a2"
    by (simp add: a2_def a1_def load_def merge_def)
  have stored1: "repository_findOne False k w1 = Some a1"
    by (simp add: repository_findOne_def r1 reload)
  have stored2: "repository_findOne False k w2 = Some a2"
    by (simp add: repository_findOne_def w2_def find_upsert [OF key2] r1 reload2)
  have calls: "filter is_publishArticle (trace w2) =
                 filter is_publishArticle (trace w) @
                   [WordpressPublishArticle (Some a), WordpressPublishArticle (Some a1)]"
    by (simp add: w2_def w1_def a)
  show ?thesis
    using calls
    by (simp add: run1 run2 stored1 stored2) (simp add: a1_def a2_def a)
qed

theorem publish_twice_witness:
  "repository_findOne False ''article-1'' world0 = Some unlinked \<and>
   fst (publish env0 ''article-1'' world0) =
     Inr (unlinked\<lparr>wordpressId := Some ''post-1''\<rparr>, \<lparr>post_id = ''post-1'', post_link = ''/p''\<rparr>) \<and>
   map_option wordpressId (repository_findOne False ''article-1'' (snd (publish env0 ''article-1'' world0)))
     = Some (Some ''post-1'') \<and>
   fst (publish env0 ''article-1'' (snd (publish env0 ''article-1'' world0))) =
     Inr (unlinked\<lparr>wordpressId := Some ''post-2''\<rparr>, \<lparr>post_id = ''post-2'', post_link = ''/p''\<rparr>) \<and>
   filter is_publishArticle
       (trace (snd (publish env0 ''article-1'' (snd (publish env0 ''article-1'' world0))))) =
     [WordpressPublishArticle (Some unlinked),
      WordpressPublishArticle (Some (unlinked\<lparr>wordpressId := Some ''post-1''\<rparr>))] \<and>
   map_option wordpressId
       (repository_findOne False ''article-1''
          (snd (publish env0 ''article-1'' (snd (publish env0 ''article-1'' world0)))))
     = Some (Some ''post-2'')"
proof -
  have none: "trace world0 = []"
    by (simp add: world0_def)
  have first: "publishArticle env0 (length (filter is_publishArticle (trace world0))) (Some unlinked)
                 = Inr \<lparr>post_id = ''post-1'', post_link = ''/p''\<rparr>"
    by (simp add: none env0_def)
  have second: "publishArticle env0 (Suc (length (filter is_publishArticle (trace world0))))
                  (Some (unlinked\<lparr>wordpressId := Some (post_id \<lparr>post_id = ''post-1'', post_link = ''/p''\<rparr>)\<rparr>))
                 = Inr \<lparr>post_id = ''post-2'', post_link = ''/p''\<rparr>"
    by (simp add: none env0_def)
  show ?thesis
    using publish_twice [OF unlinked_found first second env0_saves env0_saves] unlinked_found
    by (simp add: none)
qed

lemma missing0: "repository_findOne False ''article-404'' world0 = None"
  by (simp add: repository_findOne_def world0_def draft_def)

text \<open>
  C7. When the repository has no article for the identifier, \<^verbatim>\<open>getPublished\<close>
  returns \<^verbatim>\<open>undefined\<close> and the world is unchanged (no call to the publishing
  adapter); when it has one and the adapter answers, the result is the pair of that
  article and the adapter's answer, after exactly one \<^verbatim>\<open>getArticle\<close> call.
\<close>

theorem getPublished_result:
  "(repository_findOne False k w = None \<longrightarrow> getPublished E k w = (Inr None, w)) \<and>
   (\<forall>a p. repository_findOne False k w = Some a \<and> getArticle E a = Inr p \<longrightarrow>
      getPublished E k w = (Inr (Some (a, p)), w\<lparr>trace := trace w @ [WordpressGetArticle a]\<rparr>))"
  by (simp add: getPublished_def record_call_def)

theorem getPublished_result_witness:
  "repository_findOne False ''article-404'' world0 = None \<and>
   getPublished env0 ''article-404'' world0 = (Inr None, world0) \<and>
   repository_findOne False ''article-1'' world0 = Some unlinked \<and>
   getArticle env0 unlinked = Inr \<lparr>post_id = ''post-9'', post_link = ''/p9''\<rparr> \<and>
   getPublished env0 ''article-1'' world0 =
     (Inr (Some (unlinked, \<lparr>post_id = ''post-9'', post_link = ''/p9''\<rparr>)),
      world0\<lparr>trace := trace world0 @ [WordpressGetArticle unlinked]\<rparr>)"
proof -
  have answer: "getArticle env0 unlinked = Inr \<lparr>post_id = ''post-9'', post_link = ''/p9''\<rparr>"
    by (simp add: env0_def)
  show ?thesis
    using getPublished_result [of "''article-404''" world0 env0]
      getPublished_result [of "''article-1''" world0 env0] missing0 unlinked_found answer
    by simp
qed

text \<open>
  C9. When the analysis result names an article the repository does not have,
  \<^verbatim>\<open>updateCopyright\<close> ends with the \<^verbatim>\<open>TypeError\<close> of reading \<^verbatim>\<open>title\<close> of
  \<^verbatim>\<open>undefined\<close>: it neither returns normally nor raises an error of its own, and
  nothing is logged.
\<close>

theorem updateCopyright_missing_article:
  assumes "repository_findOne False (articleId result) w = None"
  shows "updateCopyright result w = (Inl TypeError, w)"
  using assms by (simp add: updateCopyright_def)

theorem updateCopyright_missing_article_witness:
  "repository_findOne False (articleId \<lparr>articleId = ''article-404''\<rparr>) world0 = None \<and>
   updateCopyright \<lparr>articleId = ''article-404''\<rparr> world0 = (Inl TypeError, world0)"
proof -
  have missing: "repository_findOne False (articleId \<lparr>articleId = ''article-404''\<rparr>) world0 = None"
    by (simp add: missing0)
  show ?thesis
    using updateCopyright_missing_article [OF missing] missing by simp
qed

end
